theory Spec2Isabelle
  imports Complex_Main "HOL-Library.Char_ord" "HOL-Library.List_Lexorder"
begin

section \<open>Python values and the arithmetic that \<open>update_ema\<close> performs on them\<close>

text \<open>
  The detector of \<^verbatim>\<open>src/anomaly_detection.py\<close> is dynamically typed: \<open>alpha\<close>,
  \<open>threshold\<close> and every sample may be any Python object, and \<open>update_ema\<close> relies on the
  operators raising \<open>TypeError\<close> for objects that are not numbers. The model therefore
  works on a small universe of Python values: integers, floats, strings and \<open>None\<close>.

  A float is either finite or one of the three special values of IEEE arithmetic. Finite
  floats are idealised as real numbers. Outside the model are therefore: rounding; the
  overflow of a finite result (to an infinity for \<open>*\<close> and \<open>+\<close>, to an \<open>OverflowError\<close> for
  \<open>**\<close> on a Python float and for the conversion of a huge integer); the sign of zero;
  and the difference between a Python float and a NumPy \<open>float64\<close>. The special values
  follow the IEEE rules that Python and NumPy implement (\<open>nan\<close> is absorbing, \<open>inf - inf\<close>
  and \<open>0 * inf\<close> are \<open>nan\<close>, comparisons with \<open>nan\<close> are false).

  The properties proved below are those that do not depend on what the idealisation
  leaves out: the first sample (\<open>v - v\<close> is exact), the sign of the spread, samples
  that are not numbers, the construction, the kind of value returned and stored, one
  scenario on small numbers, and \<open>alpha = 1\<close> on float samples (\<open>1 * x + 0 * c\<close> is
  exact). Values of the updated center and spread in general are not among them.
\<close>

datatype pyfloat = Fin real | PosInf | NegInf | NaN

datatype pyval = PInt int | PFloat pyfloat | PStr string | PNone

datatype py_error = TypeError | ZeroDivisionError

subsection \<open>Float arithmetic\<close>

fun fneg :: "pyfloat \<Rightarrow> pyfloat" where
  "fneg (Fin x) = Fin (- x)"
| "fneg PosInf = NegInf"
| "fneg NegInf = PosInf"
| "fneg NaN = NaN"

fun fadd :: "pyfloat \<Rightarrow> pyfloat \<Rightarrow> pyfloat" where
  "fadd (Fin x) (Fin y) = Fin (x + y)"
| "fadd NaN _ = NaN"
| "fadd _ NaN = NaN"
| "fadd PosInf NegInf = NaN"
| "fadd NegInf PosInf = NaN"
| "fadd PosInf _ = PosInf"
| "fadd _ PosInf = PosInf"
| "fadd NegInf _ = NegInf"
| "fadd _ NegInf = NegInf"

definition fsub :: "pyfloat \<Rightarrow> pyfloat \<Rightarrow> pyfloat" where
  "fsub a b = fadd a (fneg b)"

text \<open>An infinity times a finite factor: \<open>nan\<close> for zero, otherwise the sign decides.\<close>

definition inf_times :: "real \<Rightarrow> pyfloat" where
  "inf_times y = (if y = 0 then NaN else if 0 < y then PosInf else NegInf)"

fun fmul :: "pyfloat \<Rightarrow> pyfloat \<Rightarrow> pyfloat" where
  "fmul (Fin x) (Fin y) = Fin (x * y)"
| "fmul NaN _ = NaN"
| "fmul _ NaN = NaN"
| "fmul PosInf (Fin y) = inf_times y"
| "fmul NegInf (Fin y) = inf_times (- y)"
| "fmul (Fin x) PosInf = inf_times x"
| "fmul (Fin x) NegInf = inf_times (- x)"
| "fmul PosInf PosInf = PosInf"
| "fmul NegInf NegInf = PosInf"
| "fmul PosInf NegInf = NegInf"
| "fmul NegInf PosInf = NegInf"

text \<open>Division by a divisor that is not zero (the caller raises for zero).\<close>

fun fdiv :: "pyfloat \<Rightarrow> pyfloat \<Rightarrow> pyfloat" where
  "fdiv (Fin x) (Fin y) = Fin (x / y)"
| "fdiv NaN _ = NaN"
| "fdiv _ NaN = NaN"
| "fdiv (Fin x) _ = Fin 0"
| "fdiv PosInf (Fin y) = inf_times y"
| "fdiv NegInf (Fin y) = inf_times (- y)"
| "fdiv _ _ = NaN"

fun fabs :: "pyfloat \<Rightarrow> pyfloat" where
  "fabs (Fin x) = Fin \<bar>x\<bar>"
| "fabs NaN = NaN"
| "fabs _ = PosInf"

fun fsquare :: "pyfloat \<Rightarrow> pyfloat" where
  "fsquare (Fin x) = Fin (x ^ 2)"
| "fsquare NaN = NaN"
| "fsquare _ = PosInf"

fun fsqrt :: "pyfloat \<Rightarrow> pyfloat" where
  "fsqrt (Fin x) = (if x < 0 then NaN else Fin (sqrt x))"
| "fsqrt PosInf = PosInf"
| "fsqrt _ = NaN"

fun fgt :: "pyfloat \<Rightarrow> pyfloat \<Rightarrow> bool" where
  "fgt (Fin x) (Fin y) = (y < x)"
| "fgt NaN _ = False"
| "fgt _ NaN = False"
| "fgt PosInf PosInf = False"
| "fgt PosInf _ = True"
| "fgt _ PosInf = False"
| "fgt NegInf _ = False"
| "fgt _ NegInf = True"

subsection \<open>Python operators\<close>

text \<open>
  Each operator returns \<open>Inl TypeError\<close> where Python raises for the operand types.
  An integer combined with a float is converted to a float first; an integer times a
  string repeats the string; two strings add by concatenation and compare
  lexicographically.

  The conversion \<open>to_float\<close> is exact here. In the code it rounds an integer above
  \<open>2**53\<close> and raises \<open>OverflowError\<close> for one beyond the double range; products and sums
  of floats are rounded there and exact here.
\<close>

definition to_float :: "int \<Rightarrow> pyfloat" where
  "to_float n = Fin (of_int n)"

fun py_mul :: "pyval \<Rightarrow> pyval \<Rightarrow> py_error + pyval" where
  "py_mul (PInt m) (PInt n) = Inr (PInt (m * n))"
| "py_mul (PInt m) (PFloat y) = Inr (PFloat (fmul (to_float m) y))"
| "py_mul (PFloat x) (PInt n) = Inr (PFloat (fmul x (to_float n)))"
| "py_mul (PFloat x) (PFloat y) = Inr (PFloat (fmul x y))"
| "py_mul (PInt m) (PStr s) = Inr (PStr (concat (replicate (nat m) s)))"
| "py_mul (PStr s) (PInt n) = Inr (PStr (concat (replicate (nat n) s)))"
| "py_mul _ _ = Inl TypeError"

fun py_add :: "pyval \<Rightarrow> pyval \<Rightarrow> py_error + pyval" where
  "py_add (PInt m) (PInt n) = Inr (PInt (m + n))"
| "py_add (PInt m) (PFloat y) = Inr (PFloat (fadd (to_float m) y))"
| "py_add (PFloat x) (PInt n) = Inr (PFloat (fadd x (to_float n)))"
| "py_add (PFloat x) (PFloat y) = Inr (PFloat (fadd x y))"
| "py_add (PStr s) (PStr t) = Inr (PStr (s @ t))"
| "py_add _ _ = Inl TypeError"

fun py_sub :: "pyval \<Rightarrow> pyval \<Rightarrow> py_error + pyval" where
  "py_sub (PInt m) (PInt n) = Inr (PInt (m - n))"
| "py_sub (PInt m) (PFloat y) = Inr (PFloat (fsub (to_float m) y))"
| "py_sub (PFloat x) (PInt n) = Inr (PFloat (fsub x (to_float n)))"
| "py_sub (PFloat x) (PFloat y) = Inr (PFloat (fsub x y))"
| "py_sub _ _ = Inl TypeError"

text \<open>
  \<open>x ** 2\<close>: the exponent is always the literal 2 in the source. On a Python float whose
  square is beyond the double range the code raises \<open>OverflowError\<close> (caught by the
  second \<open>except\<close> clause, after \<open>self.ema\<close> was assigned); the model has no bound on a
  finite float and so no such case.
\<close>

fun py_pow2 :: "pyval \<Rightarrow> py_error + pyval" where
  "py_pow2 (PInt m) = Inr (PInt (m ^ 2))"
| "py_pow2 (PFloat x) = Inr (PFloat (fsquare x))"
| "py_pow2 _ = Inl TypeError"

text \<open>
  \<open>np.sqrt\<close> converts an integer to a float, returns \<open>nan\<close> (with a warning, not an
  exception) for a negative argument, and raises \<open>TypeError\<close> for a string or \<open>None\<close>.
  In the code it also raises \<open>TypeError\<close> for an integer of \<open>2**64\<close> or more, which the
  model leaves out.
\<close>

fun np_sqrt :: "pyval \<Rightarrow> py_error + pyval" where
  "np_sqrt (PInt m) = Inr (PFloat (fsqrt (to_float m)))"
| "np_sqrt (PFloat x) = Inr (PFloat (fsqrt x))"
| "np_sqrt _ = Inl TypeError"

fun py_gt :: "pyval \<Rightarrow> pyval \<Rightarrow> py_error + bool" where
  "py_gt (PInt m) (PInt n) = Inr (n < m)"
| "py_gt (PInt m) (PFloat y) = Inr (fgt (to_float m) y)"
| "py_gt (PFloat x) (PInt n) = Inr (fgt x (to_float n))"
| "py_gt (PFloat x) (PFloat y) = Inr (fgt x y)"
| "py_gt (PStr s) (PStr t) = Inr (t < s)"
| "py_gt _ _ = Inl TypeError"

fun is_zero :: "pyval \<Rightarrow> bool" where
  "is_zero (PInt n) = (n = 0)"
| "is_zero (PFloat (Fin y)) = (y = 0)"
| "is_zero _ = False"

text \<open>True division \<open>/\<close>: two integers divide to a float; a zero divisor raises.\<close>

fun py_truediv :: "pyval \<Rightarrow> pyval \<Rightarrow> py_error + pyval" where
  "py_truediv (PInt m) (PInt n) =
     (if n = 0 then Inl ZeroDivisionError else Inr (PFloat (fdiv (to_float m) (to_float n))))"
| "py_truediv (PInt m) (PFloat y) =
     (if is_zero (PFloat y) then Inl ZeroDivisionError else Inr (PFloat (fdiv (to_float m) y)))"
| "py_truediv (PFloat x) (PInt n) =
     (if n = 0 then Inl ZeroDivisionError else Inr (PFloat (fdiv x (to_float n))))"
| "py_truediv (PFloat x) (PFloat y) =
     (if is_zero (PFloat y) then Inl ZeroDivisionError else Inr (PFloat (fdiv x y)))"
| "py_truediv _ _ = Inl TypeError"

fun py_abs :: "pyval \<Rightarrow> py_error + pyval" where
  "py_abs (PInt m) = Inr (PInt \<bar>m\<bar>)"
| "py_abs (PFloat x) = Inr (PFloat (fabs x))"
| "py_abs _ = Inl TypeError"

text \<open>Sequencing of two computations that may raise: the first exception wins.\<close>

definition and_then :: "py_error + 'a \<Rightarrow> ('a \<Rightarrow> py_error + 'b) \<Rightarrow> py_error + 'b" where
  "and_then r f = (case r of Inl e \<Rightarrow> Inl e | Inr x \<Rightarrow> f x)"

section \<open>The detector\<close>

text \<open>
  \<^verbatim>\<open>class EMAAnomalyDetector\<close>: the four attributes. \<open>ema\<close> and \<open>std\<close> are \<open>None\<close>
  until the first sample.
\<close>

record EMAAnomalyDetector =
  ema :: pyval
  alpha :: pyval
  std :: pyval
  threshold :: pyval

text \<open>\<^verbatim>\<open>__init__(self, alpha, threshold)\<close>: stores its arguments; there is no check.\<close>

definition init :: "pyval \<Rightarrow> pyval \<Rightarrow> EMAAnomalyDetector" where
  "init a t = \<lparr>ema = PNone, alpha = a, std = PNone, threshold = t\<rparr>"

text \<open>
  Line 77, the right-hand side of the assignment to \<open>self.ema\<close>:
  \<^verbatim>\<open>self.alpha * value + (1 - self.alpha) * self.ema\<close>
\<close>

definition new_ema :: "EMAAnomalyDetector \<Rightarrow> pyval \<Rightarrow> py_error + pyval" where
  "new_ema d v =
     and_then (py_mul (alpha d) v) (\<lambda>l.
     and_then (py_sub (PInt 1) (alpha d)) (\<lambda>c.
     and_then (py_mul c (ema d)) (\<lambda>r.
     py_add l r)))"

text \<open>
  Line 79, the right-hand side of the assignment to \<open>self.std\<close>, evaluated after
  \<open>self.ema\<close> has been assigned:
  \<^verbatim>\<open>np.sqrt(self.alpha * (value - self.ema) ** 2 + (1 - self.alpha) * self.std ** 2)\<close>
\<close>

definition new_std :: "EMAAnomalyDetector \<Rightarrow> pyval \<Rightarrow> py_error + pyval" where
  "new_std d v =
     and_then (py_sub v (ema d)) (\<lambda>dev.
     and_then (py_pow2 dev) (\<lambda>dev2.
     and_then (py_mul (alpha d) dev2) (\<lambda>l.
     and_then (py_sub (PInt 1) (alpha d)) (\<lambda>c.
     and_then (py_pow2 (std d)) (\<lambda>s2.
     and_then (py_mul c s2) (\<lambda>r.
     and_then (py_add l r) np_sqrt))))))"

text \<open>
  Line 82: \<^verbatim>\<open>z_score = (value - self.ema) / (self.std if self.std > 0 else 1)\<close>
\<close>

definition z_score :: "EMAAnomalyDetector \<Rightarrow> pyval \<Rightarrow> py_error + pyval" where
  "z_score d v =
     and_then (py_sub v (ema d)) (\<lambda>num.
     and_then (py_gt (std d) (PInt 0)) (\<lambda>pos.
     py_truediv num (if pos then std d else PInt 1)))"

text \<open>Line 84: \<^verbatim>\<open>abs(z_score) > self.threshold\<close>\<close>

definition exceeds_threshold :: "EMAAnomalyDetector \<Rightarrow> pyval \<Rightarrow> py_error + bool" where
  "exceeds_threshold d z = and_then (py_abs z) (\<lambda>a. py_gt a (threshold d))"

text \<open>
  The body of the \<open>try\<close> block (lines 71 to 84). The result pairs what the block
  produced, a returned boolean or the exception raised, with the attributes as they
  are at that moment: an exception raised while computing \<open>self.std\<close> leaves the new
  \<open>self.ema\<close> assigned.
\<close>

definition try_block :: "EMAAnomalyDetector \<Rightarrow> pyval \<Rightarrow> (py_error + bool) \<times> EMAAnomalyDetector" where
  "try_block d v =
     (if ema d = PNone then
        (let d2 = d\<lparr>ema := v, std := PInt 0\<rparr>
         in (and_then (z_score d2 v) (exceeds_threshold d2), d2))
      else
        (case new_ema d v of
           Inl e \<Rightarrow> (Inl e, d)
         | Inr m \<Rightarrow>
             (let d1 = d\<lparr>ema := m\<rparr>
              in (case new_std d1 v of
                    Inl e \<Rightarrow> (Inl e, d1)
                  | Inr s \<Rightarrow>
                      (let d2 = d1\<lparr>std := s\<rparr>
                       in (and_then (z_score d2 v) (exceeds_threshold d2), d2))))))"

text \<open>
  \<^verbatim>\<open>update_ema(self, value)\<close>: both \<open>except\<close> clauses (\<open>ZeroDivisionError\<close> and
  \<open>Exception\<close>) print a message and return \<open>False\<close>. The printed text is not modelled.
  The result is the returned boolean and the detector after the call.
\<close>

definition update_ema :: "EMAAnomalyDetector \<Rightarrow> pyval \<Rightarrow> bool \<times> EMAAnomalyDetector" where
  "update_ema d v =
     (case try_block d v of
        (Inl ZeroDivisionError, d') \<Rightarrow> (False, d')
      | (Inl TypeError, d') \<Rightarrow> (False, d')
      | (Inr b, d') \<Rightarrow> (b, d'))"

text \<open>
  The callers (\<open>process_data_stream\<close>, \<open>live_visualization\<close>) call \<open>update_ema\<close> once per
  sample of the stream, in order, on one detector. \<open>feed\<close> does so for a finite prefix
  of the stream and lists, per call, the returned boolean and the detector after it.
\<close>

fun feed :: "EMAAnomalyDetector \<Rightarrow> pyval list \<Rightarrow> (bool \<times> EMAAnomalyDetector) list" where
  "feed d [] = []"
| "feed d (v # vs) = update_ema d v # feed (snd (update_ema d v)) vs"

text \<open>The real number that a finite numeric value stands for.\<close>

fun real_of :: "pyval \<Rightarrow> real option" where
  "real_of (PInt n) = Some (of_int n)"
| "real_of (PFloat (Fin x)) = Some x"
| "real_of _ = None"

text \<open>
  The classes of samples the properties speak about: a finite number (an integer or a
  finite float), any number (the infinities and \<open>nan\<close> included), and a value that is
  not a number at all.
\<close>

definition is_finite :: "pyval \<Rightarrow> bool" where
  "is_finite v = (case real_of v of Some x \<Rightarrow> True | None \<Rightarrow> False)"

fun is_number :: "pyval \<Rightarrow> bool" where
  "is_number (PInt n) = True"
| "is_number (PFloat x) = True"
| "is_number _ = False"

fun non_numeric :: "pyval \<Rightarrow> bool" where
  "non_numeric (PStr s) = True"
| "non_numeric PNone = True"
| "non_numeric _ = False"

definition is_finite_float :: "pyval \<Rightarrow> bool" where
  "is_finite_float v = (case v of PFloat (Fin x) \<Rightarrow> True | _ \<Rightarrow> False)"

section \<open>The specification's formulas\<close>

text \<open>
  The update of one subsequent sample as the specification words it, on real numbers:
  \<open>new_center = alpha*value + (1-alpha)*center\<close>,
  \<open>new_spread = sqrt(alpha*(value - new_center)^2 + (1-alpha)*spread^2)\<close>, and the score
  \<open>(value - new_center) / new_spread\<close> if the new spread is positive, otherwise
  \<open>(value - new_center) / 1\<close>.
\<close>

definition spec_center :: "real \<Rightarrow> real \<Rightarrow> real \<Rightarrow> real" where
  "spec_center a x c = a * x + (1 - a) * c"

definition spec_spread :: "real \<Rightarrow> real \<Rightarrow> real \<Rightarrow> real \<Rightarrow> real" where
  "spec_spread a x c s = sqrt (a * (x - spec_center a x c) ^ 2 + (1 - a) * s ^ 2)"

definition spec_score :: "real \<Rightarrow> real \<Rightarrow> real \<Rightarrow> real \<Rightarrow> real" where
  "spec_score a x c s =
     (if 0 < spec_spread a x c s then (x - spec_center a x c) / spec_spread a x c s
      else (x - spec_center a x c) / 1)"

text \<open>
  The specification's constraints on a configuration: \<open>alpha\<close> a finite number with
  \<open>0 < alpha <= 1\<close>, \<open>threshold\<close> a finite non-negative number.
\<close>

definition valid_configuration :: "pyval \<Rightarrow> pyval \<Rightarrow> bool" where
  "valid_configuration al th =
     ((case real_of al of Some a \<Rightarrow> 0 < a \<and> a \<le> 1 | None \<Rightarrow> False) \<and>
      (case real_of th of Some t \<Rightarrow> 0 \<le> t | None \<Rightarrow> False))"

text \<open>The defining equations that evaluate a call on concrete values.\<close>

lemmas eval_defs = init_def update_ema_def try_block_def new_ema_def new_std_def z_score_def
  exceeds_threshold_def Let_def to_float_def fsub_def inf_times_def is_finite_def

section \<open>The operators on finite numbers\<close>

text \<open>
  On finite numbers no operator raises, and the result stands for the result of the
  corresponding operation on the reals.
\<close>

lemma real_of_SomeE:
  assumes "real_of v = Some x"
  obtains n where "v = PInt n" "x = of_int n" | "v = PFloat (Fin x)"
  using assms by (cases v rule: real_of.cases) auto

lemma py_mul_real:
  assumes "real_of u = Some x" "real_of v = Some y"
  shows "\<exists>w. py_mul u v = Inr w \<and> real_of w = Some (x * y)"
  using assms by (elim real_of_SomeE) (auto simp: to_float_def)

lemma py_add_real:
  assumes "real_of u = Some x" "real_of v = Some y"
  shows "\<exists>w. py_add u v = Inr w \<and> real_of w = Some (x + y)"
  using assms by (elim real_of_SomeE) (auto simp: to_float_def)

lemma py_sub_real:
  assumes "real_of u = Some x" "real_of v = Some y"
  shows "\<exists>w. py_sub u v = Inr w \<and> real_of w = Some (x - y)"
  using assms by (elim real_of_SomeE) (auto simp: to_float_def fsub_def)

lemma py_pow2_real:
  assumes "real_of u = Some x"
  shows "\<exists>w. py_pow2 u = Inr w \<and> real_of w = Some (x ^ 2)"
  using assms by (elim real_of_SomeE) auto

lemma np_sqrt_real:
  assumes "real_of u = Some x" "0 \<le> x"
  shows "\<exists>w. np_sqrt u = Inr w \<and> real_of w = Some (sqrt x)"
  using assms by (elim real_of_SomeE) (auto simp: to_float_def)

lemma py_gt_real:
  assumes "real_of u = Some x" "real_of v = Some y"
  shows "py_gt u v = Inr (y < x)"
  using assms by (elim real_of_SomeE) (auto simp: to_float_def)

lemma py_truediv_real:
  assumes "real_of u = Some x" "real_of v = Some y" "y \<noteq> 0"
  shows "\<exists>w. py_truediv u v = Inr w \<and> real_of w = Some (x / y)"
  using assms by (elim real_of_SomeE) (auto simp: to_float_def)

lemma py_abs_real:
  assumes "real_of u = Some x"
  shows "\<exists>w. py_abs u = Inr w \<and> real_of w = Some \<bar>x\<bar>"
  using assms by (elim real_of_SomeE) auto

section \<open>One call of \<open>update_ema\<close>\<close>

lemma and_then_Inr [simp]: "and_then (Inr x) f = f x"
  by (simp add: and_then_def)

lemma and_then_Inl [simp]: "and_then (Inl e) f = Inl e"
  by (simp add: and_then_def)

lemma new_ema_real:
  assumes "real_of (alpha d) = Some a" "real_of v = Some x" "real_of (ema d) = Some c"
  shows "\<exists>m. new_ema d v = Inr m \<and> real_of m = Some (a * x + (1 - a) * c)"
proof -
  obtain l where l: "py_mul (alpha d) v = Inr l" "real_of l = Some (a * x)"
    using py_mul_real [OF assms(1,2)] by blast
  have one: "real_of (PInt 1) = Some 1" by simp
  obtain k where k: "py_sub (PInt 1) (alpha d) = Inr k" "real_of k = Some (1 - a)"
    using py_sub_real [OF one assms(1)] by blast
  obtain r where r: "py_mul k (ema d) = Inr r" "real_of r = Some ((1 - a) * c)"
    using py_mul_real [OF k(2) assms(3)] by blast
  obtain m where m: "py_add l r = Inr m" "real_of m = Some (a * x + (1 - a) * c)"
    using py_add_real [OF l(2) r(2)] by blast
  show ?thesis
    using l k r m by (simp add: new_ema_def)
qed

lemma new_std_real:
  assumes "real_of (alpha d) = Some a" "real_of v = Some x" "real_of (ema d) = Some c"
    and "real_of (std d) = Some s" "0 \<le> a * (x - c) ^ 2 + (1 - a) * s ^ 2"
  shows "\<exists>w. new_std d v = Inr w \<and> real_of w = Some (sqrt (a * (x - c) ^ 2 + (1 - a) * s ^ 2))"
proof -
  obtain dev where dev: "py_sub v (ema d) = Inr dev" "real_of dev = Some (x - c)"
    using py_sub_real [OF assms(2,3)] by blast
  obtain dev2 where dev2: "py_pow2 dev = Inr dev2" "real_of dev2 = Some ((x - c) ^ 2)"
    using py_pow2_real [OF dev(2)] by blast
  obtain l where l: "py_mul (alpha d) dev2 = Inr l" "real_of l = Some (a * (x - c) ^ 2)"
    using py_mul_real [OF assms(1) dev2(2)] by blast
  have one: "real_of (PInt 1) = Some 1" by simp
  obtain k where k: "py_sub (PInt 1) (alpha d) = Inr k" "real_of k = Some (1 - a)"
    using py_sub_real [OF one assms(1)] by blast
  obtain s2 where s2: "py_pow2 (std d) = Inr s2" "real_of s2 = Some (s ^ 2)"
    using py_pow2_real [OF assms(4)] by blast
  obtain r where r: "py_mul k s2 = Inr r" "real_of r = Some ((1 - a) * s ^ 2)"
    using py_mul_real [OF k(2) s2(2)] by blast
  obtain t where t: "py_add l r = Inr t" "real_of t = Some (a * (x - c) ^ 2 + (1 - a) * s ^ 2)"
    using py_add_real [OF l(2) r(2)] by blast
  obtain w where w: "np_sqrt t = Inr w"
      "real_of w = Some (sqrt (a * (x - c) ^ 2 + (1 - a) * s ^ 2))"
    using np_sqrt_real [OF t(2) assms(5)] by blast
  show ?thesis
    using dev dev2 l k s2 r t w by (simp add: new_std_def)
qed

lemma z_score_real:
  assumes "real_of v = Some x" "real_of (ema d) = Some c" "real_of (std d) = Some s"
  shows "\<exists>z. z_score d v = Inr z \<and> real_of z = Some ((x - c) / (if 0 < s then s else 1))"
proof -
  obtain num where num: "py_sub v (ema d) = Inr num" "real_of num = Some (x - c)"
    using py_sub_real [OF assms(1,2)] by blast
  have zero: "real_of (PInt 0) = Some 0" by simp
  have pos: "py_gt (std d) (PInt 0) = Inr (0 < s)"
    using py_gt_real [OF assms(3) zero] .
  have den: "real_of (if 0 < s then std d else PInt 1) = Some (if 0 < s then s else 1)"
    using assms(3) by simp
  have "(if 0 < s then s else 1) \<noteq> 0" by simp
  from py_truediv_real [OF num(2) den this]
  obtain z where z: "py_truediv num (if 0 < s then std d else PInt 1) = Inr z"
      "real_of z = Some ((x - c) / (if 0 < s then s else 1))"
    by blast
  show ?thesis
    using num pos z by (simp add: z_score_def)
qed

lemma exceeds_threshold_real:
  assumes "real_of z = Some r" "real_of (threshold d) = Some t"
  shows "exceeds_threshold d z = Inr (t < \<bar>r\<bar>)"
proof -
  obtain a where a: "py_abs z = Inr a" "real_of a = Some \<bar>r\<bar>"
    using py_abs_real [OF assms(1)] by blast
  show ?thesis
    using a py_gt_real [OF a(2) assms(2)] by (simp add: exceeds_threshold_def)
qed


lemma update_ema_snd: "snd (update_ema d v) = snd (try_block d v)"
proof (cases "try_block d v")
  case (Pair r d')
  then show ?thesis
    by (cases r) (auto simp: update_ema_def split: py_error.splits)
qed

lemma update_ema_fst:
  "fst (update_ema d v) = (case fst (try_block d v) of Inl e \<Rightarrow> False | Inr b \<Rightarrow> b)"
proof (cases "try_block d v")
  case (Pair r d')
  then show ?thesis
    by (cases r) (auto simp: update_ema_def split: py_error.splits)
qed

lemma try_block_fresh:
  assumes "ema d = PNone"
  shows "try_block d v =
    (and_then (z_score (d\<lparr>ema := v, std := PInt 0\<rparr>) v)
       (exceeds_threshold (d\<lparr>ema := v, std := PInt 0\<rparr>)),
     d\<lparr>ema := v, std := PInt 0\<rparr>)"
  using assms by (simp add: try_block_def Let_def)

lemma try_block_step:
  assumes "ema d \<noteq> PNone" "new_ema d v = Inr m" "new_std (d\<lparr>ema := m\<rparr>) v = Inr w"
  shows "try_block d v =
    (and_then (z_score (d\<lparr>ema := m, std := w\<rparr>) v)
       (exceeds_threshold (d\<lparr>ema := m, std := w\<rparr>)),
     d\<lparr>ema := m, std := w\<rparr>)"
  using assms by (simp add: try_block_def Let_def)

lemma radicand_nonneg:
  fixes a :: real
  assumes "0 < a" "a \<le> 1"
  shows "0 \<le> a * y ^ 2 + (1 - a) * s ^ 2"
proof -
  have "0 \<le> a * y ^ 2" using assms(1) by simp
  moreover have "0 \<le> (1 - a) * s ^ 2" using assms(2) by simp
  ultimately show ?thesis by simp
qed

lemma try_block_initialized:
  assumes "real_of (alpha d) = Some a" "0 < a" "a \<le> 1"
    and "real_of (ema d) = Some c" "real_of (std d) = Some s"
    and "real_of v = Some x"
  shows "\<exists>m w. try_block d v =
      (and_then (z_score (d\<lparr>ema := m, std := w\<rparr>) v)
         (exceeds_threshold (d\<lparr>ema := m, std := w\<rparr>)),
       d\<lparr>ema := m, std := w\<rparr>) \<and>
     real_of m = Some (a * x + (1 - a) * c) \<and>
     real_of w = Some (sqrt (a * (x - (a * x + (1 - a) * c)) ^ 2 + (1 - a) * s ^ 2))"
proof -
  obtain m where m: "new_ema d v = Inr m" "real_of m = Some (a * x + (1 - a) * c)"
    using new_ema_real [OF assms(1,6,4)] by blast
  let ?d1 = "d\<lparr>ema := m\<rparr>"
  have "\<exists>w. new_std ?d1 v = Inr w \<and>
      real_of w = Some (sqrt (a * (x - (a * x + (1 - a) * c)) ^ 2 + (1 - a) * s ^ 2))"
    by (rule new_std_real) (use assms m in \<open>simp_all add: radicand_nonneg\<close>)
  then obtain w where w: "new_std ?d1 v = Inr w"
      "real_of w = Some (sqrt (a * (x - (a * x + (1 - a) * c)) ^ 2 + (1 - a) * s ^ 2))"
    by blast
  have "ema d \<noteq> PNone" using assms(4) by auto
  from try_block_step [OF this m(1) w(1)] m(2) w(2) show ?thesis by blast
qed

lemma spec_spread_nonneg:
  assumes "0 < a" "a \<le> 1"
  shows "0 \<le> spec_spread a x c s"
  using assms by (simp add: spec_spread_def radicand_nonneg)

lemma update_ema_initialized:
  assumes "real_of (alpha d) = Some a" "0 < a" "a \<le> 1"
    and "real_of (ema d) = Some c" "real_of (std d) = Some s"
    and "real_of v = Some x"
  shows "\<exists>m w z. snd (update_ema d v) = d\<lparr>ema := m, std := w\<rparr> \<and>
     real_of m = Some (spec_center a x c) \<and> real_of w = Some (spec_spread a x c s) \<and>
     z_score (d\<lparr>ema := m, std := w\<rparr>) v = Inr z \<and> real_of z = Some (spec_score a x c s) \<and>
     fst (update_ema d v) =
       (case exceeds_threshold (d\<lparr>ema := m, std := w\<rparr>) z of Inl e \<Rightarrow> False | Inr b \<Rightarrow> b)"
proof -
  obtain m w where tb: "try_block d v =
      (and_then (z_score (d\<lparr>ema := m, std := w\<rparr>) v)
         (exceeds_threshold (d\<lparr>ema := m, std := w\<rparr>)),
       d\<lparr>ema := m, std := w\<rparr>)"
    and m: "real_of m = Some (spec_center a x c)"
    and w: "real_of w = Some (spec_spread a x c s)"
    using try_block_initialized [OF assms] unfolding spec_center_def spec_spread_def by blast
  let ?d' = "d\<lparr>ema := m, std := w\<rparr>"
  obtain z where z: "z_score ?d' v = Inr z" "real_of z = Some (spec_score a x c s)"
    using z_score_real [of v x ?d' "spec_center a x c" "spec_spread a x c s"] assms(6) m w
    unfolding spec_score_def by auto
  have "snd (update_ema d v) = ?d'"
    using tb by (simp add: update_ema_snd)
  moreover have "fst (update_ema d v) =
      (case exceeds_threshold ?d' z of Inl e \<Rightarrow> False | Inr b \<Rightarrow> b)"
    using tb z(1) by (simp add: update_ema_fst)
  ultimately show ?thesis
    using m w z by blast
qed

lemma update_ema_initialized_flag:
  assumes "real_of (alpha d) = Some a" "0 < a" "a \<le> 1"
    and "real_of (ema d) = Some c" "real_of (std d) = Some s"
    and "real_of v = Some x" "real_of (threshold d) = Some t"
  shows "fst (update_ema d v) = (t < \<bar>spec_score a x c s\<bar>)"
proof -
  obtain m w z where *: "real_of z = Some (spec_score a x c s)"
    "fst (update_ema d v) =
       (case exceeds_threshold (d\<lparr>ema := m, std := w\<rparr>) z of Inl e \<Rightarrow> False | Inr b \<Rightarrow> b)"
    using update_ema_initialized [OF assms(1-6)] by blast
  have "exceeds_threshold (d\<lparr>ema := m, std := w\<rparr>) z = Inr (t < \<bar>spec_score a x c s\<bar>)"
    by (rule exceeds_threshold_real) (use * assms(7) in simp_all)
  with *(2) show ?thesis by simp
qed

lemma update_ema_fresh:
  assumes "ema d = PNone"
  shows "snd (update_ema d v) = d\<lparr>ema := v, std := PInt 0\<rparr>"
  using try_block_fresh [OF assms] by (simp add: update_ema_snd)

lemma z_score_fresh:
  assumes "real_of v = Some x"
  shows "\<exists>z. z_score (d\<lparr>ema := v, std := PInt 0\<rparr>) v = Inr z \<and> real_of z = Some 0"
  using z_score_real [of v x "d\<lparr>ema := v, std := PInt 0\<rparr>" x 0] assms by simp

lemma update_ema_fresh_flag:
  assumes "ema d = PNone" "real_of v = Some x" "real_of (threshold d) = Some t" "0 \<le> t"
  shows "fst (update_ema d v) = False"
proof -
  let ?d' = "d\<lparr>ema := v, std := PInt 0\<rparr>"
  obtain z where z: "z_score ?d' v = Inr z" "real_of z = Some 0"
    using z_score_fresh [OF assms(2)] by blast
  have "exceeds_threshold ?d' z = Inr (t < \<bar>0\<bar>)"
    by (rule exceeds_threshold_real) (use z assms(3) in simp_all)
  then show ?thesis
    using try_block_fresh [OF assms(1), of v] z(1) assms(4) by (simp add: update_ema_fst)
qed

lemma try_block_config:
  "alpha (snd (try_block d v)) = alpha d \<and> threshold (snd (try_block d v)) = threshold d"
  by (simp add: try_block_def Let_def split: sum.splits)

lemma update_ema_config:
  "alpha (snd (update_ema d v)) = alpha d \<and> threshold (snd (update_ema d v)) = threshold d"
  by (simp add: update_ema_snd try_block_config)

lemma is_finiteE:
  assumes "is_finite v"
  obtains x where "real_of v = Some x"
  using assms by (auto simp: is_finite_def split: option.splits)

section \<open>Sequences of finite samples\<close>

lemma update_ema_spread_nonneg:
  assumes "real_of (alpha d) = Some a" "0 < a" "a \<le> 1" "real_of v = Some x"
    and "ema d = PNone \<or> (\<exists>c s. real_of (ema d) = Some c \<and> real_of (std d) = Some s)"
  shows "\<exists>c s. real_of (ema (snd (update_ema d v))) = Some c \<and>
     real_of (std (snd (update_ema d v))) = Some s \<and> 0 \<le> s"
  using assms(5)
proof
  assume "ema d = PNone"
  then show ?thesis
    using assms(4) by (simp add: update_ema_fresh)
next
  assume "\<exists>c s. real_of (ema d) = Some c \<and> real_of (std d) = Some s"
  then obtain c s where cs: "real_of (ema d) = Some c" "real_of (std d) = Some s"
    by blast
  obtain m w where "snd (update_ema d v) = d\<lparr>ema := m, std := w\<rparr>"
    "real_of m = Some (spec_center a x c)" "real_of w = Some (spec_spread a x c s)"
    using update_ema_initialized [OF assms(1-3) cs assms(4)] by blast
  moreover have "0 \<le> spec_spread a x c s"
    by (rule spec_spread_nonneg [OF assms(2,3)])
  ultimately show ?thesis by simp
qed

lemma feed_spread_nonneg:
  assumes "real_of (alpha d) = Some a" "0 < a" "a \<le> 1" "list_all is_finite vs"
    and "ema d = PNone \<or> (\<exists>c s. real_of (ema d) = Some c \<and> real_of (std d) = Some s)"
    and "(b, d') \<in> set (feed d vs)"
  shows "\<exists>s. real_of (std d') = Some s \<and> 0 \<le> s"
  using assms
proof (induction vs arbitrary: d)
  case Nil
  then show ?case by simp
next
  case (Cons v vs)
  let ?d1 = "snd (update_ema d v)"
  from Cons.prems(4) obtain x where x: "real_of v = Some x"
    by (auto elim: is_finiteE)
  have inv: "\<exists>c s. real_of (ema ?d1) = Some c \<and> real_of (std ?d1) = Some s \<and> 0 \<le> s"
    by (rule update_ema_spread_nonneg [OF Cons.prems(1-3) x Cons.prems(5)])
  from Cons.prems(6) consider "(b, d') = update_ema d v" | "(b, d') \<in> set (feed ?d1 vs)"
    by auto
  then show ?case
  proof cases
    case 1
    then have "d' = ?d1" by (metis snd_conv)
    with inv show ?thesis by blast
  next
    case 2
    have "real_of (alpha ?d1) = Some a"
      using Cons.prems(1) by (simp add: update_ema_config)
    moreover have "list_all is_finite vs"
      using Cons.prems(4) by simp
    moreover have "ema ?d1 = PNone \<or>
        (\<exists>c s. real_of (ema ?d1) = Some c \<and> real_of (std ?d1) = Some s)"
      using inv by blast
    ultimately show ?thesis
      using Cons.IH [of ?d1] Cons.prems(2,3) 2 by blast
  qed
qed

lemma spec_alpha_one:
  "spec_center 1 x c = x" "spec_spread 1 x c s = 0" "spec_score 1 x c s = 0"
  by (simp_all add: spec_center_def spec_spread_def spec_score_def)

lemma update_ema_alpha_one:
  assumes "real_of (alpha d) = Some 1" "real_of (threshold d) = Some t" "0 \<le> t"
    and "real_of v = Some x"
    and "ema d = PNone \<or> (\<exists>c s. real_of (ema d) = Some c \<and> real_of (std d) = Some s)"
  shows "\<exists>d' z. update_ema d v = (False, d') \<and> real_of (ema d') = Some x \<and>
     real_of (std d') = Some 0 \<and> z_score d' v = Inr z \<and> real_of z = Some 0"
  using assms(5)
proof
  assume fresh: "ema d = PNone"
  let ?d' = "d\<lparr>ema := v, std := PInt 0\<rparr>"
  have "update_ema d v = (False, ?d')"
    using update_ema_fresh_flag [OF fresh assms(4,2,3)] update_ema_fresh [OF fresh, of v]
    by (simp add: prod_eq_iff)
  then show ?thesis
    using z_score_fresh [OF assms(4), of d] assms(4) by auto
next
  assume "\<exists>c s. real_of (ema d) = Some c \<and> real_of (std d) = Some s"
  then obtain c s where cs: "real_of (ema d) = Some c" "real_of (std d) = Some s"
    by blast
  have a: "(0 :: real) < 1" "(1 :: real) \<le> 1" by simp_all
  obtain m w z where *: "snd (update_ema d v) = d\<lparr>ema := m, std := w\<rparr>"
    "real_of m = Some x" "real_of w = Some 0"
    "z_score (d\<lparr>ema := m, std := w\<rparr>) v = Inr z" "real_of z = Some 0"
    using update_ema_initialized [OF assms(1) a cs assms(4)] by (auto simp: spec_alpha_one)
  have "fst (update_ema d v) = False"
    using update_ema_initialized_flag [OF assms(1) a cs assms(4,2)] assms(3)
    by (simp add: spec_alpha_one)
  with *(1) have "update_ema d v = (False, d\<lparr>ema := m, std := w\<rparr>)"
    by (simp add: prod_eq_iff)
  with * show ?thesis by auto
qed

lemma feed_alpha_one:
  assumes "real_of (alpha d) = Some 1" "real_of (threshold d) = Some t" "0 \<le> t"
    and "list_all is_finite vs"
    and "ema d = PNone \<or> (\<exists>c s. real_of (ema d) = Some c \<and> real_of (std d) = Some s)"
    and "i < length vs"
  shows "\<exists>d' z. feed d vs ! i = (False, d') \<and> real_of (ema d') = real_of (vs ! i) \<and>
     real_of (std d') = Some 0 \<and> z_score d' (vs ! i) = Inr z \<and> real_of z = Some 0"
  using assms
proof (induction vs arbitrary: d i)
  case Nil
  then show ?case by simp
next
  case (Cons v vs)
  from Cons.prems(4) obtain x where x: "real_of v = Some x"
    by (auto elim: is_finiteE)
  obtain d1 z where step: "update_ema d v = (False, d1)" "real_of (ema d1) = Some x"
    "real_of (std d1) = Some 0" "z_score d1 v = Inr z" "real_of z = Some 0"
    using update_ema_alpha_one [OF Cons.prems(1-3) x Cons.prems(5)] by blast
  show ?case
  proof (cases i)
    case 0
    then show ?thesis using step x by simp
  next
    case (Suc j)
    have d1: "snd (update_ema d v) = d1" using step(1) by simp
    have "real_of (alpha d1) = Some 1" "real_of (threshold d1) = Some t"
      using update_ema_config [of d v] Cons.prems(1,2) d1 by simp_all
    moreover have "list_all is_finite vs" "j < length vs"
      using Cons.prems(4,6) Suc by simp_all
    moreover have "ema d1 = PNone \<or>
        (\<exists>c s. real_of (ema d1) = Some c \<and> real_of (std d1) = Some s)"
      using step by blast
    ultimately show ?thesis
      using Cons.IH [of d1 j] Cons.prems(3) Suc d1 by simp
  qed
qed

section \<open>Samples that are not numbers\<close>

lemma new_ema_non_numeric:
  assumes "non_numeric v" "is_number (ema d)"
  shows "new_ema d v = Inl TypeError"
  using assms
  by (cases v rule: non_numeric.cases; cases "alpha d"; cases "ema d")
    (simp_all add: new_ema_def)

lemma update_ema_non_numeric:
  assumes "non_numeric v" "is_number (ema d)"
  shows "update_ema d v = (False, d)"
proof -
  have "ema d \<noteq> PNone" using assms(2) by auto
  then show ?thesis
    using new_ema_non_numeric [OF assms] by (simp add: update_ema_def try_block_def)
qed

lemma py_mul_number:
  assumes "py_mul u v = Inr w" "is_number u" "is_number v"
  shows "is_number w"
  using assms by (cases u; cases v) auto

lemma py_sub_number:
  assumes "py_sub u v = Inr w"
  shows "is_number w \<and> is_number v"
  using assms by (cases u; cases v) auto

lemma py_add_number:
  assumes "py_add u v = Inr w" "is_number v"
  shows "is_number w"
  using assms by (cases u; cases v) auto

lemma new_ema_number:
  assumes "new_ema d v = Inr m" "is_number (ema d)"
  shows "is_number m"
proof -
  from assms(1) obtain l k r where *: "py_mul (alpha d) v = Inr l"
    "py_sub (PInt 1) (alpha d) = Inr k" "py_mul k (ema d) = Inr r" "py_add l r = Inr m"
    by (auto simp: new_ema_def and_then_def split: sum.splits)
  have "is_number k" using py_sub_number [OF *(2)] by simp
  then have "is_number r" using py_mul_number [OF *(3)] assms(2) by simp
  then show ?thesis using py_add_number [OF *(4)] by simp
qed

lemma update_ema_keeps_number:
  assumes "ema d = PNone \<and> is_number v \<or> is_number (ema d)"
  shows "is_number (ema (snd (update_ema d v)))"
  using assms
proof
  assume "ema d = PNone \<and> is_number v"
  then show ?thesis by (simp add: update_ema_fresh)
next
  assume n: "is_number (ema d)"
  then have "ema d \<noteq> PNone" by auto
  then show ?thesis
    using n new_ema_number [of d v]
    by (auto simp: update_ema_snd try_block_def Let_def split: sum.splits)
qed




lemma is_finite_float_finite: "is_finite_float v \<Longrightarrow> is_finite v"
  by (auto simp: is_finite_float_def is_finite_def split: pyval.splits pyfloat.splits)

lemma list_all_finite_float:
  "list_all is_finite_float vs \<Longrightarrow> list_all is_finite vs"
  by (induction vs) (simp_all add: is_finite_float_finite)

section \<open>The scenario with a flat signal and one outlier\<close>

lemma sqrt_scenario: "sqrt (405 / 2) < 15" "0 < sqrt (405 / 2 :: real)"
proof -
  have "sqrt (405 / 2) < sqrt (15 ^ 2)"
    by (subst real_sqrt_less_iff) simp
  then show "sqrt (405 / 2) < 15" by simp
  show "0 < sqrt (405 / 2 :: real)" by simp
qed

lemma scenario_score: "3 < 45 / sqrt (405 / 2)"
proof -
  have "3 * sqrt (405 / 2) < 45" using sqrt_scenario(1) by simp
  then show ?thesis using sqrt_scenario(2) by (simp add: pos_less_divide_eq)
qed

lemma scenario_first:
  "update_ema (init (PFloat (Fin (1 / 10))) (PInt 3)) (PInt 50) =
     (False, \<lparr>ema = PInt 50, alpha = PFloat (Fin (1 / 10)), std = PInt 0, threshold = PInt 3\<rparr>)"
  by (simp add: eval_defs)

lemma scenario_second:
  "update_ema \<lparr>ema = PInt 50, alpha = PFloat (Fin (1 / 10)), std = PInt 0, threshold = PInt 3\<rparr>
     (PInt 50) = (False, \<lparr>ema = PFloat (Fin 50), alpha = PFloat (Fin (1 / 10)), std = PFloat (Fin 0),
       threshold = PInt 3\<rparr>)"
  by (simp add: eval_defs)

lemma scenario_steady: "update_ema \<lparr>ema = PFloat (Fin 50), alpha = PFloat (Fin (1 / 10)), std = PFloat (Fin 0),
       threshold = PInt 3\<rparr>
     (PInt 50) = (False, \<lparr>ema = PFloat (Fin 50), alpha = PFloat (Fin (1 / 10)), std = PFloat (Fin 0),
       threshold = PInt 3\<rparr>)"
  by (simp add: eval_defs)

lemma scenario_outlier:
  "update_ema \<lparr>ema = PFloat (Fin 50), alpha = PFloat (Fin (1 / 10)), std = PFloat (Fin 0),
       threshold = PInt 3\<rparr>
     (PInt 100) =
     (True, \<lparr>ema = PFloat (Fin 55), alpha = PFloat (Fin (1 / 10)),
        std = PFloat (Fin (sqrt (405 / 2))), threshold = PInt 3\<rparr>)"
  using scenario_score sqrt_scenario
  by (simp add: eval_defs)

lemma scenario_outlier_score:
  "z_score \<lparr>ema = PFloat (Fin 55), alpha = PFloat (Fin (1 / 10)),
        std = PFloat (Fin (sqrt (405 / 2))), threshold = PInt 3\<rparr> (PInt 100)
   = Inr (PFloat (Fin (45 / sqrt (405 / 2))))"
  by (simp add: eval_defs)

section \<open>Claims\<close>

text \<open>
  C2. On a detector built by \<open>init\<close> with a finite non-negative threshold (and any
  \<open>alpha\<close>), the first call of \<open>update_ema\<close> with a finite sample \<open>v\<close> returns false and
  leaves the center equal to \<open>v\<close> and the spread equal to 0.
\<close>

theorem update_ema_first_sample:
  assumes "real_of th = Some t" "0 \<le> t" "real_of v = Some x"
  shows "update_ema (init al th) v =
    (False, \<lparr>ema = v, alpha = al, std = PInt 0, threshold = th\<rparr>)"
proof -
  have "ema (init al th) = PNone" "real_of (threshold (init al th)) = Some t"
    using assms(1) by (simp_all add: init_def)
  from update_ema_fresh_flag [OF this(1) assms(3) this(2) assms(2)]
    update_ema_fresh [OF this(1), of v]
  show ?thesis
    by (simp add: init_def prod_eq_iff)
qed

theorem update_ema_first_sample_witness:
  "real_of (PInt 3) = Some 3 \<and> (0 :: real) \<le> 3 \<and> real_of (PInt 50) = Some 50 \<and>
   update_ema (init (PFloat (Fin (1 / 10))) (PInt 3)) (PInt 50) =
     (False, \<lparr>ema = PInt 50, alpha = PFloat (Fin (1 / 10)), std = PInt 0, threshold = PInt 3\<rparr>)"
proof -
  have h: "real_of (PInt 3) = Some 3" "(0 :: real) \<le> 3" "real_of (PInt 50) = Some 50"
    by simp_all
  from update_ema_first_sample [OF h] h show ?thesis by blast
qed

text \<open>
  C3. For \<open>alpha\<close> in \<open>(0, 1]\<close>, any threshold and any sequence of finite samples fed
  to a new detector, the spread after every call is a finite number that is not
  negative.
\<close>

theorem spread_never_negative:
  assumes "real_of al = Some a" "0 < a" "a \<le> 1" "list_all is_finite vs"
    and "(b, d') \<in> set (feed (init al th) vs)"
  shows "\<exists>s. real_of (std d') = Some s \<and> 0 \<le> s"
proof (rule feed_spread_nonneg [OF _ assms(2,3,4) _ assms(5)])
  show "real_of (alpha (init al th)) = Some a"
    using assms(1) by (simp add: init_def)
  show "ema (init al th) = PNone \<or>
      (\<exists>c s. real_of (ema (init al th)) = Some c \<and> real_of (std (init al th)) = Some s)"
    by (simp add: init_def)
qed

theorem spread_never_negative_witness:
  "real_of (PFloat (Fin (1 / 10))) = Some (1 / 10) \<and> (0 :: real) < 1 / 10 \<and> (1 / 10 :: real) \<le> 1 \<and>
   list_all is_finite [PInt 50, PInt 100] \<and>
   (False, \<lparr>ema = PInt 50, alpha = PFloat (Fin (1 / 10)), std = PInt 0, threshold = PInt 3\<rparr>)
     \<in> set (feed (init (PFloat (Fin (1 / 10))) (PInt 3)) [PInt 50, PInt 100]) \<and>
   (\<exists>s. real_of (std \<lparr>ema = PInt 50, alpha = PFloat (Fin (1 / 10)), std = PInt 0,
       threshold = PInt 3\<rparr>) = Some s \<and> 0 \<le> s)"
proof -
  have h: "real_of (PFloat (Fin (1 / 10))) = Some (1 / 10)" "(0 :: real) < 1 / 10"
    "(1 / 10 :: real) \<le> 1" "list_all is_finite [PInt 50, PInt 100]"
    by (simp_all add: is_finite_def)
  have m: "(False, \<lparr>ema = PInt 50, alpha = PFloat (Fin (1 / 10)), std = PInt 0, threshold = PInt 3\<rparr>)
     \<in> set (feed (init (PFloat (Fin (1 / 10))) (PInt 3)) [PInt 50, PInt 100])"
    by (simp add: eval_defs)
  from spread_never_negative [OF h m] h m show ?thesis by blast
qed

text \<open>
  C4. (as the code has it) Let \<open>a\<close> be a number and \<open>b\<close> any sample, fed to a detector
  that is new or whose center is a number. A sample that is not a number (a string or
  \<open>None\<close>) fed between them changes nothing: the call returns false, which is also what a
  normal classification returns, and leaves the detector as it was, so that \<open>a\<close>, the
  invalid sample, \<open>b\<close> ends with the same result and the same detector as \<open>a\<close>, \<open>b\<close>
  alone.
\<close>

theorem non_numeric_sample_is_skipped:
  assumes "ema d = PNone \<or> is_number (ema d)" "is_number a" "non_numeric bad"
  shows "update_ema (snd (update_ema d a)) bad = (False, snd (update_ema d a)) \<and>
     last (feed d [a, bad, b]) = last (feed d [a, b])"
proof -
  have "is_number (ema (snd (update_ema d a)))"
    by (rule update_ema_keeps_number) (use assms(1,2) in auto)
  from update_ema_non_numeric [OF assms(3) this] show ?thesis by simp
qed

theorem non_numeric_sample_is_skipped_witness:
  "(ema (init (PFloat (Fin (1 / 10))) (PInt 3)) = PNone \<or>
      is_number (ema (init (PFloat (Fin (1 / 10))) (PInt 3)))) \<and>
   is_number (PInt 1) \<and> non_numeric (PStr ''abc'') \<and>
   update_ema (snd (update_ema (init (PFloat (Fin (1 / 10))) (PInt 3)) (PInt 1))) (PStr ''abc'')
     = (False, snd (update_ema (init (PFloat (Fin (1 / 10))) (PInt 3)) (PInt 1))) \<and>
   last (feed (init (PFloat (Fin (1 / 10))) (PInt 3)) [PInt 1, PStr ''abc'', PInt 2])
     = last (feed (init (PFloat (Fin (1 / 10))) (PInt 3)) [PInt 1, PInt 2])"
proof -
  have h: "ema (init (PFloat (Fin (1 / 10))) (PInt 3)) = PNone \<or>
      is_number (ema (init (PFloat (Fin (1 / 10))) (PInt 3)))"
    "is_number (PInt 1)" "non_numeric (PStr ''abc'')"
    by (simp_all add: init_def)
  from non_numeric_sample_is_skipped [OF h, of "PInt 2"] h show ?thesis by blast
qed

text \<open>
  C4. as stated, fails twice. A \<open>nan\<close> sample between 1 and 2 is processed like
  any number and leaves the center \<open>nan\<close>, where 1, 2 alone leave it at 1.1. And the call
  with the string \<open>abc\<close> returns false, exactly as the call with the valid sample 1 does:
  there is no result that marks the sample as invalid.
\<close>

theorem invalid_sample_counterexample:
  "ema (snd (last (feed (init (PFloat (Fin (1 / 10))) (PInt 3)) [PInt 1, PFloat NaN, PInt 2])))
     = PFloat NaN \<and>
   ema (snd (last (feed (init (PFloat (Fin (1 / 10))) (PInt 3)) [PInt 1, PInt 2])))
     = PFloat (Fin (11 / 10)) \<and>
   fst (update_ema (snd (update_ema (init (PFloat (Fin (1 / 10))) (PInt 3)) (PInt 1)))
      (PStr ''abc'')) = False \<and>
   fst (update_ema (snd (update_ema (init (PFloat (Fin (1 / 10))) (PInt 3)) (PInt 1)))
      (PInt 1)) = False"
  by (simp add: eval_defs)

text \<open>
  C5. (as the code has it) \<open>init\<close> accepts every \<open>alpha\<close> and every \<open>threshold\<close>,
  valid or not: it always produces a detector with center and spread unset that stores
  both arguments unchanged, and the first call of \<open>update_ema\<close> on it keeps them as
  well.
\<close>

theorem init_stores_arguments:
  "init al th = \<lparr>ema = PNone, alpha = al, std = PNone, threshold = th\<rparr> \<and>
   snd (update_ema (init al th) v) = \<lparr>ema = v, alpha = al, std = PInt 0, threshold = th\<rparr>"
proof -
  have "ema (init al th) = PNone" by (simp add: init_def)
  from update_ema_fresh [OF this, of v] show ?thesis by (simp add: init_def)
qed

text \<open>
  C5. as stated, fails: \<open>alpha = 2\<close> with \<open>threshold = -1\<close>, and \<open>alpha = nan\<close> with
  a string as threshold, violate the constraints of the specification, and \<open>init\<close>
  produces a detector for both.
\<close>

theorem init_accepts_invalid_configuration:
  "\<not> valid_configuration (PInt 2) (PInt (- 1)) \<and>
   init (PInt 2) (PInt (- 1)) =
     \<lparr>ema = PNone, alpha = PInt 2, std = PNone, threshold = PInt (- 1)\<rparr> \<and>
   \<not> valid_configuration (PFloat NaN) (PStr ''high'') \<and>
   init (PFloat NaN) (PStr ''high'') =
     \<lparr>ema = PNone, alpha = PFloat NaN, std = PNone, threshold = PStr ''high''\<rparr>"
  by (simp add: valid_configuration_def init_def)




text \<open>
  C7. With \<open>alpha = 0.1\<close> and \<open>threshold = 3\<close>, feeding 50, 50, 50, 50, 100 to a
  new detector returns false four times, with center 50 and spread 0 after each of these
  calls, and true for the fifth call, whose score is positive (and above 3).
\<close>

theorem scenario_flat_then_outlier:
  "map fst (feed (init (PFloat (Fin (1 / 10))) (PInt 3))
      [PInt 50, PInt 50, PInt 50, PInt 50, PInt 100]) = [False, False, False, False, True] \<and>
   map (\<lambda>r. (real_of (ema (snd r)), real_of (std (snd r))))
     (take 4 (feed (init (PFloat (Fin (1 / 10))) (PInt 3))
        [PInt 50, PInt 50, PInt 50, PInt 50, PInt 100]))
     = [(Some 50, Some 0), (Some 50, Some 0), (Some 50, Some 0), (Some 50, Some 0)] \<and>
   (\<exists>z score. z_score (snd (feed (init (PFloat (Fin (1 / 10))) (PInt 3))
        [PInt 50, PInt 50, PInt 50, PInt 50, PInt 100] ! 4)) (PInt 100) = Inr z \<and>
      real_of z = Some score \<and> 0 < score \<and> 3 < score)"
proof -
  have run: "feed (init (PFloat (Fin (1 / 10))) (PInt 3))
      [PInt 50, PInt 50, PInt 50, PInt 50, PInt 100] =
    [(False, \<lparr>ema = PInt 50, alpha = PFloat (Fin (1 / 10)), std = PInt 0, threshold = PInt 3\<rparr>),
     (False, \<lparr>ema = PFloat (Fin 50), alpha = PFloat (Fin (1 / 10)), std = PFloat (Fin 0),
       threshold = PInt 3\<rparr>), (False, \<lparr>ema = PFloat (Fin 50), alpha = PFloat (Fin (1 / 10)), std = PFloat (Fin 0),
       threshold = PInt 3\<rparr>), (False, \<lparr>ema = PFloat (Fin 50), alpha = PFloat (Fin (1 / 10)), std = PFloat (Fin 0),
       threshold = PInt 3\<rparr>),
     (True, \<lparr>ema = PFloat (Fin 55), alpha = PFloat (Fin (1 / 10)),
        std = PFloat (Fin (sqrt (405 / 2))), threshold = PInt 3\<rparr>)]"
    by (simp add: scenario_first scenario_second scenario_steady scenario_outlier)
  show ?thesis
    unfolding run using scenario_score
    by (simp add: scenario_outlier_score)
qed

text \<open>
  C10. (as the code has it) With \<open>alpha = 1\<close> and a finite non-negative threshold, for
  every sequence of finite float samples fed to a new detector, every call returns
  false, and after it the center equals the sample just fed, the spread is 0 and the
  score is 0.
\<close>

theorem alpha_one_float_samples_never_flagged:
  assumes "real_of al = Some 1" "real_of th = Some t" "0 \<le> t"
    and "list_all is_finite_float vs" "i < length vs"
  shows "\<exists>d' z. feed (init al th) vs ! i = (False, d') \<and>
     real_of (ema d') = real_of (vs ! i) \<and> real_of (std d') = Some 0 \<and>
     z_score d' (vs ! i) = Inr z \<and> real_of z = Some 0"
proof (rule feed_alpha_one [OF _ _ assms(3) _ _ assms(5)])
  show "real_of (alpha (init al th)) = Some 1" "real_of (threshold (init al th)) = Some t"
    using assms(1,2) by (simp_all add: init_def)
  show "list_all is_finite vs"
    by (rule list_all_finite_float [OF assms(4)])
  show "ema (init al th) = PNone \<or>
      (\<exists>c s. real_of (ema (init al th)) = Some c \<and> real_of (std (init al th)) = Some s)"
    by (simp add: init_def)
qed

theorem alpha_one_float_samples_never_flagged_witness:
  "real_of (PFloat (Fin 1)) = Some 1 \<and> real_of (PInt 3) = Some 3 \<and> (0 :: real) \<le> 3 \<and>
   list_all is_finite_float [PFloat (Fin (5 / 2)), PFloat (Fin (- 29 / 4))] \<and>
   (1 :: nat) < length [PFloat (Fin (5 / 2)), PFloat (Fin (- 29 / 4))] \<and>
   (\<exists>d' z. feed (init (PFloat (Fin 1)) (PInt 3)) [PFloat (Fin (5 / 2)), PFloat (Fin (- 29 / 4))] ! 1
        = (False, d') \<and>
     real_of (ema d') = real_of ([PFloat (Fin (5 / 2)), PFloat (Fin (- 29 / 4))] ! 1) \<and>
     real_of (std d') = Some 0 \<and>
     z_score d' ([PFloat (Fin (5 / 2)), PFloat (Fin (- 29 / 4))] ! 1) = Inr z \<and>
     real_of z = Some 0)"
proof -
  have h: "real_of (PFloat (Fin 1)) = Some 1" "real_of (PInt 3) = Some 3" "(0 :: real) \<le> 3"
    "list_all is_finite_float [PFloat (Fin (5 / 2)), PFloat (Fin (- 29 / 4))]"
    "(1 :: nat) < length [PFloat (Fin (5 / 2)), PFloat (Fin (- 29 / 4))]"
    by (simp_all add: is_finite_float_def)
  from alpha_one_float_samples_never_flagged [OF h] h show ?thesis by blast
qed

text \<open>
  C10, as stated for any sequence, fails: with \<open>alpha = 1\<close>, after the sample \<open>inf\<close> the
  call with the finite sample 5 leaves the center \<open>nan\<close> (\<open>0 * inf\<close> is \<open>nan\<close>), not 5.
\<close>

theorem alpha_one_center_after_infinity:
  "is_finite (PInt 5) \<and>
   feed (init (PInt 1) (PInt 3)) [PFloat PosInf, PInt 5] ! 1 =
     (False, \<lparr>ema = PFloat NaN, alpha = PInt 1, std = PFloat NaN, threshold = PInt 3\<rparr>)"
  by (simp add: eval_defs)

end
